theory Spec2Isabelle
  imports Main "HOL-Library.Word"
begin

section \<open>The configuration header \<^verbatim>\<open>device.h\<close>\<close>

text \<open>
  The repository consists of one C/C++ header, \<^verbatim>\<open>src/device.h\<close>. It holds no function:
  it is a list of preprocessor directives. The header is embedded as its text, line by
  line, and the C preprocessor's reading of such lines (object-like \<^verbatim>\<open>#define\<close>,
  \<^verbatim>\<open>#undef\<close>, \<^verbatim>\<open>#include\<close>, line comments) is modelled on top of it, so that every
  statement below is about what the text of the header yields.
\<close>

definition device_h :: "string list" where
  \<open>device_h =
    [''#include "DHT.h"'',
     '''',
     ''// Your device details'',
     ''#define MQTT_TOPIC_PREFIX "home/"'',
     ''#define DEVICE_SLEEP      10'',
     ''#define RETRY_COUNT       600'',
     '''',
     ''// Sensor definition & init'',
     ''#define DHTPIN 2'',
     ''#define DHTTYPE DHT11'',
     '''',
     ''#define IPNR 251'']\<close>

section \<open>Preprocessing tokens\<close>

datatype pp_token =
    Ident string
  | Number string
  | StringLit string
  | Punct char

definition is_space :: "char \<Rightarrow> bool" where
  "is_space c = (c = CHR '' '' \<or> c = CHR 0x09)"

definition is_digit :: "char \<Rightarrow> bool" where
  "is_digit c = (c \<in> set ''0123456789'')"

definition is_nondigit :: "char \<Rightarrow> bool" where
  "is_nondigit c =
     (c \<in> set ''_abcdefghijklmnopqrstuvwxyzABCDEFGHIJKLMNOPQRSTUVWXYZ'')"

definition is_ident_char :: "char \<Rightarrow> bool" where
  "is_ident_char c = (is_nondigit c \<or> is_digit c)"

definition dquote :: char where
  "dquote = CHR 0x22"

definition squote :: char where
  "squote = CHR 0x27"

definition backslash :: char where
  "backslash = CHR 0x5C"

text \<open>
  The tokens of the rest of a directive line. A line comment ends the line. A string
  literal with an escape sequence or without its closing quote, a character literal, a
  block comment and a line continuation are outside the fragment modelled here, and the
  lexer answers \<open>None\<close> for them.
\<close>

function lex :: "string \<Rightarrow> pp_token list option" where
  "lex [] = Some []"
| "lex (c # cs) =
     (if is_space c then lex cs
      else if c = CHR ''/'' \<and> take 1 cs = ''/'' then Some []
      else if is_nondigit c then
        map_option (Cons (Ident (c # takeWhile is_ident_char cs)))
          (lex (dropWhile is_ident_char cs))
      else if is_digit c then
        map_option (Cons (Number (c # takeWhile is_ident_char cs)))
          (lex (dropWhile is_ident_char cs))
      else if c = dquote then
        (if dropWhile (\<lambda>d. d \<noteq> dquote) cs = [] \<or>
            backslash \<in> set (takeWhile (\<lambda>d. d \<noteq> dquote) cs)
         then None
         else map_option (Cons (StringLit (takeWhile (\<lambda>d. d \<noteq> dquote) cs)))
                (lex (tl (dropWhile (\<lambda>d. d \<noteq> dquote) cs))))
      else if c = backslash \<or> c = squote \<or> (c = CHR ''/'' \<and> take 1 cs = ''*'') then None
      else map_option (Cons (Punct c)) (lex cs))"
  by pat_completeness auto

lemma length_dropWhile_pred_le: "length (dropWhile P cs) - Suc 0 \<le> length cs"
  using length_dropWhile_le [of P cs] by arith

termination lex
  by (relation "measure length")
     (simp_all add: less_Suc_eq_le length_dropWhile_le length_dropWhile_pred_le)

section \<open>Integer literals\<close>

definition digit_val :: "char \<Rightarrow> int option" where
  "digit_val = map_of (zip ''0123456789'' [0, 1, 2, 3, 4, 5, 6, 7, 8, 9])"

fun dec_digits :: "int \<Rightarrow> string \<Rightarrow> int option" where
  "dec_digits acc [] = Some acc"
| "dec_digits acc (c # cs) =
     (case digit_val c of
        None \<Rightarrow> None
      | Some d \<Rightarrow> dec_digits (10 * acc + d) cs)"

text \<open>
  The value of a decimal integer literal without suffix. Octal and hexadecimal
  literals (a leading \<^verbatim>\<open>0\<close>) and suffixed ones are not read: \<open>None\<close>.
\<close>

definition int_literal :: "string \<Rightarrow> int option" where
  "int_literal s =
     (case s of
        [] \<Rightarrow> None
      | c # cs \<Rightarrow> if c = CHR ''0'' \<and> cs \<noteq> [] then None else dec_digits 0 s)"

section \<open>Lines of a header\<close>

datatype line =
    Blank
  | Comment string
  | Include string
  | Define string "pp_token list"
  | Undef string
  | Unmodelled string
  | Code string

definition skip_space :: "string \<Rightarrow> string" where
  "skip_space = dropWhile is_space"

text \<open>
  The text after \<^verbatim>\<open>#\<close>. Only the directives of the header and \<^verbatim>\<open>#undef\<close> are read;
  every other directive (the conditionals \<^verbatim>\<open>#if\<close>, \<^verbatim>\<open>#ifdef\<close>, \<^verbatim>\<open>#else\<close>, ...,
  function-like macros, \<^verbatim>\<open>#include <...>\<close>) is \<open>Unmodelled\<close>.
\<close>

definition parse_directive :: "string \<Rightarrow> line" where
  "parse_directive r =
     (let r1 = skip_space r;
          name = takeWhile is_ident_char r1;
          rest = skip_space (dropWhile is_ident_char r1)
      in if name = ''include'' then
           (case lex rest of Some [StringLit f] \<Rightarrow> Include f | _ \<Rightarrow> Unmodelled r)
         else if name = ''define'' then
           (let m = takeWhile is_ident_char rest;
                body = dropWhile is_ident_char rest
            in if m = [] \<or> is_digit (hd m) \<or> take 1 body = ''('' then Unmodelled r
               else case lex body of Some ts \<Rightarrow> Define m ts | None \<Rightarrow> Unmodelled r)
         else if name = ''undef'' then
           (case lex rest of Some [Ident m] \<Rightarrow> Undef m | _ \<Rightarrow> Unmodelled r)
         else Unmodelled r)"

definition parse_line :: "string \<Rightarrow> line" where
  "parse_line s =
     (let t = skip_space s
      in if t = [] then Blank
         else if take 2 t = ''//'' then Comment (drop 2 t)
         else if hd t = CHR ''#'' then parse_directive (tl t)
         else Code t)"

section \<open>Macro tables and the effect of a header\<close>

text \<open>
  A macro table lists object-like macros with their replacement lists, the latest
  definition first, so that \<open>map_of\<close> finds the definition in force. Defining a
  name again replaces its earlier definition, as the GNU preprocessor of the Arduino
  toolchain does (with a warning).

  The driver's header \<^verbatim>\<open>DHT.h\<close> belongs to a third-party library and is not part of
  the repository. What including a file does to the macro table is therefore a
  parameter, of type \<open>includer\<close>: the statements below hold for every such effect
  and for every table of predefined macros the compiler starts from.
\<close>

type_synonym macros = "(string \<times> pp_token list) list"

type_synonym includer = "string \<Rightarrow> macros \<Rightarrow> macros"

fun directive :: "includer \<Rightarrow> macros \<Rightarrow> line \<Rightarrow> macros option" where
  "directive inc tbl Blank = Some tbl"
| "directive inc tbl (Comment s) = Some tbl"
| "directive inc tbl (Include f) = Some (inc f tbl)"
| "directive inc tbl (Define m body) = Some ((m, body) # tbl)"
| "directive inc tbl (Undef m) = Some (filter (\<lambda>p. fst p \<noteq> m) tbl)"
| "directive inc tbl (Unmodelled s) = None"
| "directive inc tbl (Code s) = Some tbl"

fun run_lines :: "includer \<Rightarrow> macros \<Rightarrow> line list \<Rightarrow> macros option" where
  "run_lines inc tbl [] = Some tbl"
| "run_lines inc tbl (l # ls) =
     (case directive inc tbl l of
        None \<Rightarrow> None
      | Some tbl' \<Rightarrow> run_lines inc tbl' ls)"

definition preprocess :: "includer \<Rightarrow> macros \<Rightarrow> string list \<Rightarrow> macros option" where
  "preprocess inc tbl src = run_lines inc tbl (map parse_line src)"

section \<open>Macro expansion\<close>

text \<open>
  Expansion of object-like macros with rescanning. A macro is not expanded again inside
  its own expansion: \<open>hide\<close> lists the macros being expanded.
\<close>

function expand_tok :: "macros \<Rightarrow> string list \<Rightarrow> pp_token \<Rightarrow> pp_token list"
  and expand_toks :: "macros \<Rightarrow> string list \<Rightarrow> pp_token list \<Rightarrow> pp_token list" where
  "expand_tok tbl hide (Ident x) =
     (if x \<in> set hide then [Ident x]
      else case map_of tbl x of
             None \<Rightarrow> [Ident x]
           | Some body \<Rightarrow> expand_toks tbl (x # hide) body)"
| "expand_tok tbl hide (Number d) = [Number d]"
| "expand_tok tbl hide (StringLit s) = [StringLit s]"
| "expand_tok tbl hide (Punct c) = [Punct c]"
| "expand_toks tbl hide [] = []"
| "expand_toks tbl hide (t # ts) = expand_tok tbl hide t @ expand_toks tbl hide ts"
  by pat_completeness auto

definition unhidden :: "macros \<Rightarrow> string list \<Rightarrow> nat" where
  "unhidden tbl hide = card (fst ` set tbl - set hide)"

lemma unhidden_less:
  assumes "map_of tbl x = Some body" and "x \<notin> set hide"
  shows "unhidden tbl (x # hide) < unhidden tbl hide"
proof -
  from assms(1) have "x \<in> fst ` set tbl"
    by (metis map_of_SomeD fst_conv image_eqI)
  with assms(2) have "fst ` set tbl - set (x # hide) \<subset> fst ` set tbl - set hide"
    by auto
  then show ?thesis
    unfolding unhidden_def by (intro psubset_card_mono) simp_all
qed

termination expand_tok
  by (relation "inv_image (less_than <*lex*> less_than)
        (\<lambda>a. case a of
           Inl (tbl, hide, t) \<Rightarrow> (unhidden tbl hide, 0)
         | Inr (tbl, hide, ts) \<Rightarrow> (unhidden tbl hide, Suc (length ts)))")
     (auto simp add: unhidden_less)

section \<open>The constants of the header\<close>

text \<open>
  \<open>replacement\<close> is the replacement list a macro has once the whole header is read;
  \<open>compile_constant\<close> is what a use of the macro's name after the header expands to;
  \<open>integer_constant\<close> is its value when that is one decimal integer literal.
\<close>

definition replacement :: "includer \<Rightarrow> macros \<Rightarrow> string \<Rightarrow> pp_token list option" where
  "replacement inc tbl0 name =
     (case preprocess inc tbl0 device_h of
        None \<Rightarrow> None
      | Some tbl \<Rightarrow> map_of tbl name)"

definition compile_constant :: "includer \<Rightarrow> macros \<Rightarrow> string \<Rightarrow> pp_token list option" where
  "compile_constant inc tbl0 name =
     (case preprocess inc tbl0 device_h of
        None \<Rightarrow> None
      | Some tbl \<Rightarrow> Some (expand_tok tbl [] (Ident name)))"

definition integer_constant :: "includer \<Rightarrow> macros \<Rightarrow> string \<Rightarrow> int option" where
  "integer_constant inc tbl0 name =
     (case compile_constant inc tbl0 name of
        Some [Number d] \<Rightarrow> int_literal d
      | _ \<Rightarrow> None)"

definition string_constant :: "includer \<Rightarrow> macros \<Rightarrow> string \<Rightarrow> string option" where
  "string_constant inc tbl0 name =
     (case compile_constant inc tbl0 name of
        Some [StringLit s] \<Rightarrow> Some s
      | _ \<Rightarrow> None)"

text \<open>What the lines of a header are, by kind, in the order of the file.\<close>

fun define_of :: "line \<Rightarrow> (string \<times> pp_token list) list" where
  "define_of (Define m body) = [(m, body)]"
| "define_of l = []"

fun include_of :: "line \<Rightarrow> string list" where
  "include_of (Include f) = [f]"
| "include_of l = []"

fun undef_of :: "line \<Rightarrow> string list" where
  "undef_of (Undef m) = [m]"
| "undef_of l = []"

fun is_other :: "line \<Rightarrow> bool" where
  "is_other (Code s) = True"
| "is_other (Unmodelled s) = True"
| "is_other l = False"

fun is_layout :: "line \<Rightarrow> bool" where
  "is_layout Blank = True"
| "is_layout (Comment s) = True"
| "is_layout l = False"

definition defined_macros :: "string list \<Rightarrow> (string \<times> pp_token list) list" where
  "defined_macros src = concat (map define_of (map parse_line src))"

definition included_files :: "string list \<Rightarrow> string list" where
  "included_files src = concat (map include_of (map parse_line src))"

definition undefined_macros :: "string list \<Rightarrow> string list" where
  "undefined_macros src = concat (map undef_of (map parse_line src))"

definition other_lines :: "string list \<Rightarrow> line list" where
  "other_lines src = filter is_other (map parse_line src)"

fun is_integer_define :: "string \<times> pp_token list \<Rightarrow> bool" where
  "is_integer_define (m, [Number d]) = (int_literal d \<noteq> None)"
| "is_integer_define (m, body) = False"

definition integer_constants :: "string list \<Rightarrow> string list" where
  "integer_constants src = map fst (filter is_integer_define (defined_macros src))"

definition fits_uint8 :: "int \<Rightarrow> bool" where
  "fits_uint8 v = (uint (word_of_int v :: 8 word) = v)"

definition fits_int16 :: "int \<Rightarrow> bool" where
  "fits_int16 v = (sint (word_of_int v :: 16 word) = v)"

fun positive_int16 :: "int option \<Rightarrow> bool" where
  "positive_int16 None = False"
| "positive_int16 (Some v) = (0 < v \<and> v \<le> 32767 \<and> fits_int16 v)"




section \<open>Reading the header\<close>

lemma parsed_device_h:
  "map parse_line device_h =
     [Include ''DHT.h'', Blank, Comment '' Your device details'',
      Define ''MQTT_TOPIC_PREFIX'' [StringLit ''home/''],
      Define ''DEVICE_SLEEP'' [Number ''10''],
      Define ''RETRY_COUNT'' [Number ''600''], Blank,
      Comment '' Sensor definition & init'', Define ''DHTPIN'' [Number ''2''],
      Define ''DHTTYPE'' [Ident ''DHT11''], Blank,
      Define ''IPNR'' [Number ''251'']]"
  by (simp add: device_h_def parse_line_def parse_directive_def skip_space_def
      is_space_def is_ident_char_def is_digit_def is_nondigit_def dquote_def
      squote_def backslash_def)

lemma preprocess_device_h:
  "preprocess inc tbl0 device_h =
     Some ((''IPNR'', [Number ''251'']) #
           (''DHTTYPE'', [Ident ''DHT11'']) #
           (''DHTPIN'', [Number ''2'']) #
           (''RETRY_COUNT'', [Number ''600'']) #
           (''DEVICE_SLEEP'', [Number ''10'']) #
           (''MQTT_TOPIC_PREFIX'', [StringLit ''home/'']) #
           inc ''DHT.h'' tbl0)"
  by (simp add: preprocess_def parsed_device_h)

lemma defined_macros_device_h:
  "defined_macros device_h =
     [(''MQTT_TOPIC_PREFIX'', [StringLit ''home/'']),
      (''DEVICE_SLEEP'', [Number ''10'']),
      (''RETRY_COUNT'', [Number ''600'']),
      (''DHTPIN'', [Number ''2'']),
      (''DHTTYPE'', [Ident ''DHT11'']),
      (''IPNR'', [Number ''251''])]"
  by (simp add: defined_macros_def parsed_device_h)

lemma int_literal_10: "int_literal ''10'' = Some 10"
  by (simp add: int_literal_def digit_val_def)

lemma int_literal_600: "int_literal ''600'' = Some 600"
  by (simp add: int_literal_def digit_val_def)

lemma int_literal_2: "int_literal ''2'' = Some 2"
  by (simp add: int_literal_def digit_val_def)

lemma int_literal_251: "int_literal ''251'' = Some 251"
  by (simp add: int_literal_def digit_val_def)



section \<open>The values of the constants\<close>

text \<open>
  C1. After the header, a use of \<^verbatim>\<open>DEVICE_SLEEP\<close> expands to the single integer literal
  \<^verbatim>\<open>10\<close>, whose value is 10, whatever the driver's header and the predefined macros are.
\<close>

theorem DEVICE_SLEEP_is_10:
  "compile_constant inc tbl0 ''DEVICE_SLEEP'' = Some [Number ''10''] \<and>
   integer_constant inc tbl0 ''DEVICE_SLEEP'' = Some 10"
  by (simp add: integer_constant_def compile_constant_def preprocess_device_h
      int_literal_10)

text \<open>
  C2. After the header, a use of \<^verbatim>\<open>RETRY_COUNT\<close> expands to the single integer literal
  \<^verbatim>\<open>600\<close>, whose value is 600.
\<close>

theorem RETRY_COUNT_is_600:
  "compile_constant inc tbl0 ''RETRY_COUNT'' = Some [Number ''600''] \<and>
   integer_constant inc tbl0 ''RETRY_COUNT'' = Some 600"
  by (simp add: integer_constant_def compile_constant_def preprocess_device_h
      int_literal_600)

text \<open>
  C3. After the header, a use of \<^verbatim>\<open>DHTPIN\<close> expands to the single integer literal
  \<^verbatim>\<open>2\<close>, whose value is 2.
\<close>

theorem DHTPIN_is_2:
  "compile_constant inc tbl0 ''DHTPIN'' = Some [Number ''2''] \<and>
   integer_constant inc tbl0 ''DHTPIN'' = Some 2"
  by (simp add: integer_constant_def compile_constant_def preprocess_device_h
      int_literal_2)

text \<open>
  C4. After the header, a use of \<^verbatim>\<open>IPNR\<close> expands to the single integer literal
  \<^verbatim>\<open>251\<close>, whose value is 251.
\<close>

theorem IPNR_is_251:
  "compile_constant inc tbl0 ''IPNR'' = Some [Number ''251''] \<and>
   integer_constant inc tbl0 ''IPNR'' = Some 251"
  by (simp add: integer_constant_def compile_constant_def preprocess_device_h
      int_literal_251)

text \<open>
  C5. \<^verbatim>\<open>MQTT_TOPIC_PREFIX\<close> is a string literal: a use of it expands to one string-literal
  token, its contents are \<^verbatim>\<open>home/\<close>, and their last character is the topic-level
  separator \<^verbatim>\<open>/\<close>. It is neither an integer literal nor an identifier.
\<close>

theorem MQTT_TOPIC_PREFIX_is_string:
  "compile_constant inc tbl0 ''MQTT_TOPIC_PREFIX'' = Some [StringLit ''home/''] \<and>
   string_constant inc tbl0 ''MQTT_TOPIC_PREFIX'' = Some ''home/'' \<and>
   map_option last (string_constant inc tbl0 ''MQTT_TOPIC_PREFIX'') = Some CHR ''/'' \<and>
   integer_constant inc tbl0 ''MQTT_TOPIC_PREFIX'' = None \<and>
   (\<forall>x. compile_constant inc tbl0 ''MQTT_TOPIC_PREFIX'' \<noteq> Some [Ident x])"
  by (simp add: string_constant_def integer_constant_def compile_constant_def
      preprocess_device_h)

text \<open>
  C7. The value of \<^verbatim>\<open>IPNR\<close> lies between 0 and 255 and is unchanged by a conversion to
  an unsigned 8-bit integer: it can be the last octet of an IPv4 address.
\<close>

theorem IPNR_is_octet:
  "\<exists>v. integer_constant inc tbl0 ''IPNR'' = Some v \<and> 0 \<le> v \<and> v \<le> 255 \<and> fits_uint8 v"
  by (simp add: integer_constant_def compile_constant_def preprocess_device_h
      int_literal_251 fits_uint8_def)

text \<open>
  C10. The integer constants of the header are \<^verbatim>\<open>DEVICE_SLEEP\<close>, \<^verbatim>\<open>RETRY_COUNT\<close>,
  \<^verbatim>\<open>DHTPIN\<close> and \<^verbatim>\<open>IPNR\<close>, and each of them has a value that is strictly positive,
  at most 32767, and unchanged by a conversion to a signed 16-bit integer.
\<close>

theorem integer_constants_positive_int16:
  "integer_constants device_h = [''DEVICE_SLEEP'', ''RETRY_COUNT'', ''DHTPIN'', ''IPNR''] \<and>
   list_all (\<lambda>name. positive_int16 (integer_constant inc tbl0 name))
     (integer_constants device_h)"
  by (simp add: integer_constants_def defined_macros_device_h integer_constant_def
      compile_constant_def preprocess_device_h int_literal_10 int_literal_600
      int_literal_2 int_literal_251 fits_int16_def)

theorem integer_constants_positive_int16_witness:
  "positive_int16
     (integer_constant (\<lambda>f t. (''RETRY_COUNT'', [Number ''70000'']) # t) []
        ''RETRY_COUNT'')"
proof -
  note at_driver = integer_constants_positive_int16
    [of "\<lambda>f t. (''RETRY_COUNT'', [Number ''70000'']) # t" "[]"]
  have names:
    "integer_constants device_h = [''DEVICE_SLEEP'', ''RETRY_COUNT'', ''DHTPIN'', ''IPNR'']"
    by (rule at_driver [THEN conjunct1])
  have "list_all
      (\<lambda>name. positive_int16
         (integer_constant (\<lambda>f t. (''RETRY_COUNT'', [Number ''70000'']) # t) [] name))
      (integer_constants device_h)"
    by (rule at_driver [THEN conjunct2])
  then show ?thesis
    unfolding names by simp
qed

section \<open>The sensor type\<close>




section \<open>The header as a whole\<close>

text \<open>
  C8. Each of the six constants is defined exactly once in the header (the names of the
  definitions are the six names, without repetition), the header undefines nothing, and
  for each definition the replacement list in force after the whole header is the one
  its definition gives, whatever the driver's header and the predefined macros are.
\<close>

theorem constants_defined_once_and_fixed:
  "map fst (defined_macros device_h) =
     [''MQTT_TOPIC_PREFIX'', ''DEVICE_SLEEP'', ''RETRY_COUNT'', ''DHTPIN'', ''DHTTYPE'',
      ''IPNR''] \<and>
   distinct (map fst (defined_macros device_h)) \<and>
   undefined_macros device_h = [] \<and>
   list_all (\<lambda>(m, body). replacement inc tbl0 m = Some body) (defined_macros device_h)"
  by (simp add: defined_macros_device_h undefined_macros_def parsed_device_h
      replacement_def preprocess_device_h)

theorem constants_defined_once_and_fixed_witness:
  "replacement (\<lambda>f t. (''IPNR'', [Number ''7'']) # (''DHT11'', [Number ''11'']) # t) []
     ''IPNR'' = Some [Number ''251''] \<and>
   replacement (\<lambda>f t. (''IPNR'', [Number ''7'']) # (''DHT11'', [Number ''11'']) # t) []
     ''DHTTYPE'' = Some [Ident ''DHT11'']"
proof -
  note at_driver = constants_defined_once_and_fixed
    [of "\<lambda>f t. (''IPNR'', [Number ''7'']) # (''DHT11'', [Number ''11'']) # t" "[]"]
  have "list_all
      (\<lambda>(m, body).
         replacement (\<lambda>f t. (''IPNR'', [Number ''7'']) # (''DHT11'', [Number ''11'']) # t) []
           m = Some body)
      (defined_macros device_h)"
    by (rule at_driver [THEN conjunct2, THEN conjunct2, THEN conjunct2])
  then show ?thesis
    unfolding defined_macros_device_h by simp
qed

text \<open>
  C9. The header has twelve lines: one include, of the driver's header \<^verbatim>\<open>DHT.h\<close>, six
  definitions of object-like macros (the topic prefix, the sleep interval, the retry
  count, the sensor pin, the sensor type and the device number), and blank lines and
  comments. No line is code (a function or another declaration) and no line is another
  directive (a conditional, an \<^verbatim>\<open>#undef\<close>).
\<close>

theorem header_shape:
  "length device_h = 12 \<and>
   included_files device_h = [''DHT.h''] \<and>
   length (defined_macros device_h) = 6 \<and>
   map fst (defined_macros device_h) =
     [''MQTT_TOPIC_PREFIX'', ''DEVICE_SLEEP'', ''RETRY_COUNT'', ''DHTPIN'', ''DHTTYPE'',
      ''IPNR''] \<and>
   undefined_macros device_h = [] \<and>
   other_lines device_h = [] \<and>
   length (filter is_layout (map parse_line device_h)) = 5"
  by (simp add: defined_macros_device_h undefined_macros_def included_files_def
      other_lines_def parsed_device_h)
     (simp add: device_h_def)

end
